theory Spec2Isabelle
  imports Main "HOL-Library.Word" "HOL-Library.AList" "HOL-Library.Signed_Division"
begin

section \<open>Data model\<close>

text \<open>
  The epoll-based server of evio: \<open>serve\<close>, the per-loop handlers \<open>loopAccept\<close>,
  \<open>loopOpened\<close>, \<open>loopWrite\<close>, \<open>loopAction\<close>, \<open>loopRead\<close>, \<open>loopCloseConn\<close>, the
  dispatchers \<open>OnFdEvent\<close> and \<open>OnEvent\<close>, and \<open>conn.Write\<close>.

  Go objects reached through pointers (\<open>*conn\<close>) live in a store, \<open>heap\<close>, addressed by
  natural numbers; the map \<open>fdconns\<close> and the channel \<open>wch\<close> hold addresses, as the Go
  map and channel hold pointers. A loop is named by its position in \<open>s.loops\<close>.
  What a system call returns is an input of the model. Every system call and every
  callback invocation is appended to \<open>trace\<close>, so that "no callback runs" and
  "Closed is invoked with this error" are statements about the trace.
\<close>

type_synonym byte = "8 word"

datatype Action = None_Action | Close | Shutdown | Other_Action

datatype LoadBalance = Random | RoundRobin | LeastConnections

datatype errno = EAGAIN | Errno nat

datatype error = errClosing | SyscallError errno

text \<open>What a Go call does: return an \<open>error\<close> (\<open>None\<close> is \<open>nil\<close>), panic on a slice
  expression out of range or a nil function, or block on a full channel.\<close>

datatype outcome = Return "error option" | Panic | Blocked

datatype Event = EventClose | EventTick | EventWrite | EventOther

datatype interest = ReadOnly | ReadWrite

record Options =
  TCPKeepAlive :: int
  ReuseInputBuffer :: bool

record conn =
  fd :: int
  out :: "byte list"
  sa :: nat
  reuse :: bool
  opened :: bool
  action :: Action
  localAddr :: "nat option"
  remoteAddr :: "nat option"
  conn_loop :: nat

record Server =
  srv_NumLoops :: int
  srv_Addr :: nat

record Events =
  NumLoops :: int
  LoadBalance :: LoadBalance
  Serving :: "(Server \<Rightarrow> Action) option"
  Opened :: "(conn \<Rightarrow> byte list \<times> Options \<times> Action) option"
  Closed :: "(conn \<Rightarrow> error option \<Rightarrow> Action) option"
  Data :: "(conn \<Rightarrow> byte list \<Rightarrow> byte list \<times> Action) option"
  Tick :: "(int \<times> Action) option"

record listener =
  ln_fd :: int
  lnaddr :: nat
  ln_tcp :: bool

text \<open>Modelled from the spec: the type \<open>Poll\<close> of package \<open>internal\<close>, which is not
  among the sources. Section 4.1: the poller tracks a set of file descriptors and their
  interest (read, read+write) and the user-event tags fired at it.\<close>

record Poll =
  interest_of :: "int \<rightharpoonup> interest"
  fired :: "Event list"
  poll_closed :: bool

record writeEvent =
  we_c :: nat
  we_data :: "byte list"

record loop =
  idx :: int
  poll :: Poll
  packet :: "byte list"
  fdconns :: "(int \<times> nat) list"
  count :: "32 word"
  wch :: "writeEvent list"

datatype effect =
    Sys_Accept int
  | Sys_SetNonblock int
  | Sys_SetKeepAlive int int
  | Sys_Read int
  | Sys_Write int "byte list"
  | Sys_Close int
  | Call_Opened nat
  | Call_Closed nat "error option"
  | Call_Data nat "byte list" bool
  | Call_Tick
  | Send_tch int
  | Fire_Event nat Event
  | Close_Poll nat

record server =
  events :: Events
  loops :: "loop list"
  ln :: listener
  balance :: LoadBalance
  accepted :: "64 word"
  heap :: "nat \<Rightarrow> conn"
  nref :: nat
  trace :: "effect list"

text \<open>What the kernel answers to the system calls of one handler run.\<close>

record sysenv =
  accept_res :: "int \<times> nat \<times> errno option"
  nonblock_res :: "errno option"
  keepalive_res :: "error option"
  write_res :: "int \<times> errno option"
  read_res :: "int \<times> errno option"
  read_bytes :: "byte list"


section \<open>The poller\<close>

text \<open>Modelled from the spec: \<open>internal.OpenPoll\<close>, a poller with no registration.\<close>

definition OpenPoll :: Poll where
  "OpenPoll = \<lparr>interest_of = Map.empty, fired = [], poll_closed = False\<rparr>"

text \<open>Modelled from the spec: \<open>Poll.AddRead\<close> and \<open>Poll.AddReadWrite\<close>, which register an
  fd with read-only or read+write interest (section 4.1, "idempotent interest changes").\<close>

definition AddRead :: "int \<Rightarrow> Poll \<Rightarrow> Poll" where
  "AddRead f p = p\<lparr>interest_of := (interest_of p)(f \<mapsto> ReadOnly)\<rparr>"

definition AddReadWrite :: "int \<Rightarrow> Poll \<Rightarrow> Poll" where
  "AddReadWrite f p = p\<lparr>interest_of := (interest_of p)(f \<mapsto> ReadWrite)\<rparr>"

text \<open>Modelled from the spec: \<open>Poll.ModRead\<close> "narrows a previously read+write
  registration to read-only" and \<open>Poll.ModReadWrite\<close> "widens it": both act on an fd
  that is registered and leave the poller alone otherwise.\<close>

definition ModRead :: "int \<Rightarrow> Poll \<Rightarrow> Poll" where
  "ModRead f p =
     (if f \<in> dom (interest_of p) then p\<lparr>interest_of := (interest_of p)(f \<mapsto> ReadOnly)\<rparr>
      else p)"

definition ModReadWrite :: "int \<Rightarrow> Poll \<Rightarrow> Poll" where
  "ModReadWrite f p =
     (if f \<in> dom (interest_of p) then p\<lparr>interest_of := (interest_of p)(f \<mapsto> ReadWrite)\<rparr>
      else p)"



section \<open>State access\<close>

definition emit :: "effect \<Rightarrow> server \<Rightarrow> server" where
  "emit e s = s\<lparr>trace := trace s @ [e]\<rparr>"

definition upd_loop :: "nat \<Rightarrow> (loop \<Rightarrow> loop) \<Rightarrow> server \<Rightarrow> server" where
  "upd_loop k f s = s\<lparr>loops := (loops s)[k := f (loops s ! k)]\<rparr>"

definition upd_poll :: "nat \<Rightarrow> (Poll \<Rightarrow> Poll) \<Rightarrow> server \<Rightarrow> server" where
  "upd_poll k f s = upd_loop k (\<lambda>l. l\<lparr>poll := f (poll l)\<rparr>) s"

definition upd_conn :: "nat \<Rightarrow> (conn \<Rightarrow> conn) \<Rightarrow> server \<Rightarrow> server" where
  "upd_conn r f s = s\<lparr>heap := (heap s)(r := f (heap s r))\<rparr>"


section \<open>Closing a connection\<close>

definition loopCloseConn :: "server \<Rightarrow> nat \<Rightarrow> nat \<Rightarrow> error option \<Rightarrow> outcome \<times> server" where
  "loopCloseConn s k r err =
     (let c = heap s r;
          s1 = upd_loop k (\<lambda>l. l\<lparr>count := count l - 1\<rparr>) s;
          s2 = upd_loop k (\<lambda>l. l\<lparr>fdconns := AList.delete (fd c) (fdconns l)\<rparr>) s1;
          s3 = emit (Sys_Close (fd c)) s2
      in case Closed (events s) of
           None \<Rightarrow> (Return None, s3)
         | Some cb \<Rightarrow>
             (let s4 = emit (Call_Closed r err) s3
              in if cb c err = Shutdown then (Return (Some errClosing), s4)
                 else (Return None, s4)))"

section \<open>Accepting\<close>

definition least_connections_skip :: "server \<Rightarrow> nat \<Rightarrow> bool" where
  "least_connections_skip s k =
     (let l = loops s ! k; n = count l
      in \<exists>lp \<in> set (loops s). idx lp \<noteq> idx l \<and> sint (count lp) < sint n)"

definition do_accept :: "server \<Rightarrow> nat \<Rightarrow> sysenv \<Rightarrow> outcome \<times> server" where
  "do_accept s k env =
     (let (nfd, nsa, err) = accept_res env;
          s1 = emit (Sys_Accept (ln_fd (ln s))) s
      in case err of
           Some e \<Rightarrow> (if e = EAGAIN then (Return None, s1)
                      else (Return (Some (SyscallError e)), s1))
         | None \<Rightarrow>
             (let s2 = emit (Sys_SetNonblock nfd) s1
              in case nonblock_res env of
                   Some e \<Rightarrow> (Return (Some (SyscallError e)), s2)
                 | None \<Rightarrow>
                     (let r = nref s2;
                          c = \<lparr>fd = nfd, out = [], sa = nsa, reuse = False, opened = False,
                               action = None_Action, localAddr = None, remoteAddr = None,
                               conn_loop = k\<rparr>;
                          s3 = s2\<lparr>heap := (heap s2)(r := c), nref := Suc r\<rparr>;
                          s4 = upd_loop k (\<lambda>l. l\<lparr>fdconns := AList.update nfd r (fdconns l)\<rparr>) s3;
                          s5 = upd_poll k (AddReadWrite nfd) s4;
                          s6 = upd_loop k (\<lambda>l. l\<lparr>count := count l + 1\<rparr>) s5
                      in (Return None, s6))))"

definition loopAccept :: "server \<Rightarrow> nat \<Rightarrow> sysenv \<Rightarrow> outcome \<times> server" where
  "loopAccept s k env =
     (if 1 < length (loops s) then
        (case balance s of
           LeastConnections \<Rightarrow>
             (if least_connections_skip s k then (Return None, s) else do_accept s k env)
         | RoundRobin \<Rightarrow>
             (let i = sint (accepted s) smod int (length (loops s))
              in if i \<noteq> idx (loops s ! k) then (Return None, s)
                 else do_accept (s\<lparr>accepted := accepted s + 1\<rparr>) k env)
         | Random \<Rightarrow> do_accept s k env)
      else do_accept s k env)"

section \<open>The transitions of a connection\<close>

definition narrow_if_idle :: "nat \<Rightarrow> nat \<Rightarrow> server \<Rightarrow> server" where
  "narrow_if_idle k r s =
     (let c = heap s r
      in if length (out c) = 0 \<and> action c = None_Action then upd_poll k (ModRead (fd c)) s
         else s)"

definition loopOpened :: "server \<Rightarrow> nat \<Rightarrow> nat \<Rightarrow> sysenv \<Rightarrow> outcome \<times> server" where
  "loopOpened s k r env =
     (let s1 = upd_conn r (\<lambda>c. c\<lparr>opened := True, localAddr := Some (lnaddr (ln s)),
                                remoteAddr := Some (sa c)\<rparr>) s
      in case Opened (events s) of
           None \<Rightarrow> (Return None, narrow_if_idle k r s1)
         | Some cb \<Rightarrow>
             (let (bs, opts, a) = cb (heap s1 r);
                  s2 = emit (Call_Opened r) s1;
                  s3 = (if 0 < length bs then upd_conn r (\<lambda>c. c\<lparr>out := bs\<rparr>) s2 else s2);
                  s4 = upd_conn r (\<lambda>c. c\<lparr>action := a, reuse := ReuseInputBuffer opts\<rparr>) s3
              in if 0 < TCPKeepAlive opts \<and> ln_tcp (ln s) then
                   (let s5 = emit (Sys_SetKeepAlive (fd (heap s4 r))
                                     (TCPKeepAlive opts div 1000000000)) s4
                    in case keepalive_res env of
                         Some e \<Rightarrow> (Return (Some e), s5)
                       | None \<Rightarrow> (Return None, narrow_if_idle k r s5))
                 else (Return None, narrow_if_idle k r s4)))"

definition loopWrite :: "server \<Rightarrow> nat \<Rightarrow> nat \<Rightarrow> sysenv \<Rightarrow> outcome \<times> server" where
  "loopWrite s k r env =
     (let c = heap s r;
          (n, err) = write_res env;
          s1 = emit (Sys_Write (fd c) (out c)) s
      in case err of
           Some e \<Rightarrow> (if e = EAGAIN then (Return None, s1)
                      else loopCloseConn s1 k r (Some (SyscallError e)))
         | None \<Rightarrow>
             (if n = int (length (out c)) then
                (Return None, narrow_if_idle k r (upd_conn r (\<lambda>c. c\<lparr>out := []\<rparr>) s1))
              else if n < 0 \<or> int (length (out c)) < n then (Panic, s1)
              else (Return None,
                    narrow_if_idle k r (upd_conn r (\<lambda>c. c\<lparr>out := drop (nat n) (out c)\<rparr>) s1))))"

definition loopAction :: "server \<Rightarrow> nat \<Rightarrow> nat \<Rightarrow> outcome \<times> server" where
  "loopAction s k r =
     (case action (heap s r) of
        Close \<Rightarrow> loopCloseConn s k r None
      | Shutdown \<Rightarrow> (Return (Some errClosing), s)
      | _ \<Rightarrow> (Return None, narrow_if_idle k r (upd_conn r (\<lambda>c. c\<lparr>action := None_Action\<rparr>) s)))"

text \<open>\<open>read(2)\<close> stores the \<open>n\<close> bytes it returns at the start of the buffer it is given
  and leaves the buffer alone when it fails or returns no byte.\<close>

definition sys_read :: "byte list \<Rightarrow> int \<times> errno option \<Rightarrow> byte list \<Rightarrow> byte list" where
  "sys_read buf res bs =
     (let (n, err) = res
      in if err = None \<and> 0 < n then take (nat n) bs @ drop (nat n) buf else buf)"

definition widen_if_busy :: "nat \<Rightarrow> nat \<Rightarrow> server \<Rightarrow> server" where
  "widen_if_busy k r s =
     (let c = heap s r
      in if length (out c) \<noteq> 0 \<or> action c \<noteq> None_Action then upd_poll k (ModReadWrite (fd c)) s
         else s)"

definition loopRead :: "server \<Rightarrow> nat \<Rightarrow> nat \<Rightarrow> sysenv \<Rightarrow> outcome \<times> server" where
  "loopRead s k r env =
     (let c = heap s r;
          (n, err) = read_res env;
          s1 = emit (Sys_Read (fd c)) s;
          s2 = upd_loop k (\<lambda>l. l\<lparr>packet := sys_read (packet l) (read_res env) (read_bytes env)\<rparr>) s1
      in if n = 0 \<or> err \<noteq> None then
           (if err = Some EAGAIN then (Return None, s2)
            else loopCloseConn s2 k r (map_option SyscallError err))
         else if n < 0 \<or> int (length (packet (loops s2 ! k))) < n then (Panic, s2)
         else
           (let inp = take (nat n) (packet (loops s2 ! k))
            in case Data (events s) of
                 None \<Rightarrow> (Return None, widen_if_busy k r s2)
               | Some cb \<Rightarrow>
                   (let (bs, a) = cb c inp;
                        s3 = emit (Call_Data r inp (reuse c)) s2;
                        s4 = upd_conn r (\<lambda>c. c\<lparr>action := a\<rparr>) s3;
                        s5 = (if 0 < length bs then upd_conn r (\<lambda>c. c\<lparr>out := bs\<rparr>) s4 else s4)
                    in (Return None, widen_if_busy k r s5))))"

section \<open>The handler of the poller\<close>

definition OnFdEvent :: "server \<Rightarrow> nat \<Rightarrow> int \<Rightarrow> sysenv \<Rightarrow> outcome \<times> server" where
  "OnFdEvent s k f env =
     (case map_of (fdconns (loops s ! k)) f of
        None \<Rightarrow> loopAccept s k env
      | Some r \<Rightarrow>
          (let c = heap s r
           in if \<not> opened c then loopOpened s k r env
              else if length (out c) \<noteq> 0 then loopWrite s k r env
              else if action c \<noteq> None_Action then loopAction s k r
              else loopRead s k r env))"


section \<open>Writing from any thread\<close>



section \<open>Starting and stopping the server\<close>

definition zero_conn :: conn where
  "zero_conn = \<lparr>fd = 0, out = [], sa = 0, reuse = False, opened = False,
     action = None_Action, localAddr = None, remoteAddr = None, conn_loop = 0\<rparr>"

definition numLoops_of :: "Events \<Rightarrow> int \<Rightarrow> int" where
  "numLoops_of ev ncpu =
     (let numLoops = NumLoops ev
      in if numLoops \<le> 0 then (if numLoops = 0 then 1 else ncpu) else numLoops)"

definition new_loop :: "listener \<Rightarrow> nat \<Rightarrow> loop" where
  "new_loop lsn i =
     \<lparr>idx = int i, poll = AddRead (ln_fd lsn) OpenPoll, packet = replicate 65535 0,
      fdconns = [], count = 0, wch = []\<rparr>"

text \<open>\<open>serve\<close> up to the point where the loops run: \<open>None\<close> when \<open>Serving\<close> answers
  \<open>Shutdown\<close> and \<open>serve\<close> returns before any loop exists, the server with its loops
  otherwise. \<open>ncpu\<close> is \<open>runtime.NumCPU()\<close>.\<close>

definition serving_stops :: "Events \<Rightarrow> listener \<Rightarrow> int \<Rightarrow> bool" where
  "serving_stops ev lsn ncpu =
     (case Serving ev of
        None \<Rightarrow> False
      | Some cb \<Rightarrow> cb \<lparr>srv_NumLoops = numLoops_of ev ncpu, srv_Addr = lnaddr lsn\<rparr> = Shutdown)"

definition serve :: "Events \<Rightarrow> listener \<Rightarrow> int \<Rightarrow> server option" where
  "serve ev lsn ncpu =
     (let numLoops = numLoops_of ev ncpu;
          s = \<lparr>events = ev, loops = [], ln = lsn, balance = LoadBalance ev, accepted = 0,
               heap = (\<lambda>_. zero_conn),
               nref = 0, trace = []\<rparr>
      in if serving_stops ev lsn ncpu then None
         else Some (s\<lparr>loops := map (new_loop lsn) [0 ..< nat numLoops]\<rparr>))"





definition loops_created :: "Events \<Rightarrow> listener \<Rightarrow> int \<Rightarrow> nat" where
  "loops_created ev lsn ncpu =
     (case serve ev lsn ncpu of None \<Rightarrow> 0 | Some s \<Rightarrow> length (loops s))"

section \<open>The transition table of the specification\<close>

text \<open>The table of section 4.3, in its own words: one transition per readiness event,
  the first guard that holds. It is compared with \<open>OnFdEvent\<close> below.\<close>

datatype transition = Do_accept | Do_opened nat | Do_write nat | Do_action nat | Do_read nat

definition spec_transition :: "server \<Rightarrow> nat \<Rightarrow> int \<Rightarrow> transition" where
  "spec_transition s k f =
     (case map_of (fdconns (loops s ! k)) f of
        None \<Rightarrow> Do_accept
      | Some r \<Rightarrow>
          (if \<not> opened (heap s r) then Do_opened r
           else if out (heap s r) \<noteq> [] then Do_write r
           else if action (heap s r) \<noteq> None_Action then Do_action r
           else Do_read r))"

fun run_transition :: "server \<Rightarrow> nat \<Rightarrow> sysenv \<Rightarrow> transition \<Rightarrow> outcome \<times> server" where
  "run_transition s k env Do_accept = loopAccept s k env"
| "run_transition s k env (Do_opened r) = loopOpened s k r env"
| "run_transition s k env (Do_write r) = loopWrite s k r env"
| "run_transition s k env (Do_action r) = loopAction s k r"
| "run_transition s k env (Do_read r) = loopRead s k r env"

section \<open>Example inputs\<close>

definition plain_events :: Events where
  "plain_events = \<lparr>NumLoops = 2, LoadBalance = RoundRobin, Serving = None, Opened = None,
     Closed = None, Data = None, Tick = None\<rparr>"

definition tcp_listener :: listener where
  "tcp_listener = \<lparr>ln_fd = 3, lnaddr = 0, ln_tcp = True\<rparr>"



definition idle_server :: server where
  "idle_server = \<lparr>events = plain_events,
     loops = [new_loop tcp_listener 0, new_loop tcp_listener 1], ln = tcp_listener,
     balance = RoundRobin, accepted = 0, heap = (\<lambda>_. zero_conn), nref = 0, trace = []\<rparr>"

definition eagain_env :: sysenv where
  "eagain_env = \<lparr>accept_res = (- 1, 0, Some EAGAIN), nonblock_res = None,
     keepalive_res = None, write_res = (- 1, Some EAGAIN), read_res = (- 1, Some EAGAIN),
     read_bytes = []\<rparr>"



definition closed_calls :: "server \<Rightarrow> nat \<Rightarrow> error option \<Rightarrow> effect list" where
  "closed_calls s r err = (case Closed (events s) of None \<Rightarrow> [] | Some _ \<Rightarrow> [Call_Closed r err])"

definition close_result :: "server \<Rightarrow> nat \<Rightarrow> error option \<Rightarrow> outcome" where
  "close_result s r err =
     (case Closed (events s) of
        None \<Rightarrow> Return None
      | Some cb \<Rightarrow> if cb (heap s r) err = Shutdown then Return (Some errClosing) else Return None)"

definition one_conn_server :: server where
  "one_conn_server = idle_server\<lparr>
     loops := [(new_loop tcp_listener 0)\<lparr>fdconns := [(7, 0)], count := 1,
                 poll := AddReadWrite 7 (AddRead 3 OpenPoll)\<rparr>,
               new_loop tcp_listener 1],
     heap := (\<lambda>_. zero_conn)(0 := zero_conn\<lparr>fd := 7, out := [1, 2, 3], opened := True\<rparr>),
     nref := 1\<rparr>"



definition echo_server :: server where
  "echo_server = one_conn_server\<lparr>
     events := plain_events\<lparr>Data := Some (\<lambda>c inp. (inp, None_Action))\<rparr>,
     heap := (\<lambda>_. zero_conn)(0 := zero_conn\<lparr>fd := 7, opened := True\<rparr>)\<rparr>"

definition read_env :: sysenv where
  "read_env = eagain_env\<lparr>read_res := (2, None), read_bytes := [5, 6]\<rparr>"









definition conns_view :: "server \<Rightarrow> (32 word \<times> (int \<times> nat) list) list" where
  "conns_view s = map (\<lambda>l. (count l, fdconns l)) (loops s)"










section \<open>Number of loops\<close>

text \<open>
  C3, as the code has it: \<open>serve\<close> creates no loop when the \<open>Serving\<close> callback answers
  \<open>Shutdown\<close>; otherwise it creates one loop when \<open>NumLoops\<close> is 0, one loop per CPU
  (\<open>runtime.NumCPU()\<close>) when \<open>NumLoops\<close> is negative, and \<open>NumLoops\<close> loops when it is
  positive.
\<close>

theorem serve_number_of_loops:
  "loops_created ev lsn ncpu =
     (if serving_stops ev lsn ncpu then 0
      else if NumLoops ev = 0 then 1
      else if NumLoops ev < 0 then nat ncpu
      else nat (NumLoops ev))"
  by (simp add: loops_created_def serve_def numLoops_of_def Let_def)

theorem serve_number_of_loops_witness:
  "loops_created (plain_events\<lparr>NumLoops := - 1\<rparr>) tcp_listener 4 = 4"
  using serve_number_of_loops [of "plain_events\<lparr>NumLoops := - 1\<rparr>" tcp_listener 4]
  by (simp add: serving_stops_def plain_events_def)

text \<open>With \<open>NumLoops = 0\<close> and a \<open>Serving\<close> callback that answers \<open>Shutdown\<close>, \<open>serve\<close>
  returns before the loop that creates the loops: not one loop, but none.\<close>

theorem serve_number_of_loops_counterexample:
  "NumLoops (plain_events\<lparr>NumLoops := 0, Serving := Some (\<lambda>_. Shutdown)\<rparr>) = 0 \<and>
   loops_created (plain_events\<lparr>NumLoops := 0, Serving := Some (\<lambda>_. Shutdown)\<rparr>)
     tcp_listener 4 \<noteq> 1"
  by (simp add: loops_created_def serve_def serving_stops_def plain_events_def)

section \<open>Dispatch of a readiness event\<close>

text \<open>
  C4: on every fd readiness event the handler runs exactly the one transition that the
  priority table selects: accept when the fd has no connection in the loop's map, else
  Opened when the connection is not opened yet, else a write when the outbound buffer is
  not empty, else the pending action when it is not None, else a read.
\<close>

theorem OnFdEvent_selects_transition:
  "OnFdEvent s k f env = run_transition s k env (spec_transition s k f)"
  by (simp add: OnFdEvent_def spec_transition_def Let_def split: option.split)

section \<open>Round-robin accept\<close>

lemma sint_below: "unat (w :: 64 word) < 2 ^ 63 \<Longrightarrow> sint w = int (unat w)"
proof -
  assume a: "unat w < 2 ^ 63"
  have "int (unat w) < int (2 ^ 63)" using a by (simp only: of_nat_less_iff)
  then have b: "int (unat w) < 2 ^ 63" by (simp only: of_nat_power of_nat_numeral)
  have c: "- (2 ^ 63) \<le> int (unat w)"
    by (rule order_trans [of _ 0]) simp_all
  have "signed_take_bit 63 (int (unat w)) = int (unat w)"
    using c b by (rule signed_take_bit_int_eq_self)
  moreover have "sint w = signed_take_bit 63 (uint w)"
    by (simp add: sint_uint)
  ultimately show ?thesis by (simp only: uint_nat)
qed

lemma smod_nonneg: "0 \<le> (a::int) \<Longrightarrow> 0 < b \<Longrightarrow> a smod b = a mod b"
  by (simp add: signed_modulo_int_def sgn_if)

lemma accepted_do_accept: "accepted (snd (do_accept s k env)) = accepted s"
  by (simp add: do_accept_def Let_def emit_def upd_loop_def upd_poll_def
      split: prod.split option.split)

lemma trace_do_accept:
  "\<exists>es. trace (snd (do_accept s k env)) = trace s @ Sys_Accept (ln_fd (ln s)) # es"
  by (simp add: do_accept_def Let_def emit_def upd_loop_def upd_poll_def
      split: prod.split option.split)

lemma round_robin_index:
  assumes "unat (accepted s) < 2 ^ 63" and "1 < length (loops s)"
  shows "sint (accepted s) smod int (length (loops s)) =
         int (unat (accepted s) mod length (loops s))"
proof -
  have "sint (accepted s) = int (unat (accepted s))"
    using assms(1) by (rule sint_below)
  moreover have "int (unat (accepted s)) smod int (length (loops s)) =
                 int (unat (accepted s)) mod int (length (loops s))"
    using assms(2) by (intro smod_nonneg) auto
  ultimately show ?thesis by (simp only: zmod_int)
qed

text \<open>
  C1, as the code has it: with more than one loop under RoundRobin, on listener
  readiness a loop goes on to accept only when the accepted counter modulo the number of
  loops equals its index (the counter is read as a signed integer, which is the counter
  itself below \<open>2^63\<close>). A loop whose index does not match returns with the whole state,
  the counter included, unchanged and without calling accept. A loop whose index matches
  increments the counter before it calls accept, so the counter is incremented whether
  or not that accept succeeds.
\<close>

theorem loopAccept_round_robin:
  assumes "1 < length (loops s)" and "balance s = RoundRobin"
    and "unat (accepted s) < 2 ^ 63"
  shows "(int (unat (accepted s) mod length (loops s)) \<noteq> idx (loops s ! k) \<longrightarrow>
            loopAccept s k env = (Return None, s)) \<and>
         (int (unat (accepted s) mod length (loops s)) = idx (loops s ! k) \<longrightarrow>
            loopAccept s k env = do_accept (s\<lparr>accepted := accepted s + 1\<rparr>) k env \<and>
            accepted (snd (loopAccept s k env)) = accepted s + 1 \<and>
            (\<exists>es. trace (snd (loopAccept s k env)) = trace s @ Sys_Accept (ln_fd (ln s)) # es))"
proof -
  have i: "sint (accepted s) smod int (length (loops s)) =
           int (unat (accepted s) mod length (loops s))"
    using assms(3,1) by (rule round_robin_index)
  have skip: "int (unat (accepted s) mod length (loops s)) \<noteq> idx (loops s ! k) \<Longrightarrow>
        loopAccept s k env = (Return None, s)"
    using assms(1,2) i by (simp add: loopAccept_def Let_def)
  have take: "int (unat (accepted s) mod length (loops s)) = idx (loops s ! k) \<Longrightarrow>
        loopAccept s k env = do_accept (s\<lparr>accepted := accepted s + 1\<rparr>) k env"
    using assms(1,2) i by (simp add: loopAccept_def Let_def)
  have acc: "accepted (snd (do_accept (s\<lparr>accepted := accepted s + 1\<rparr>) k env)) = accepted s + 1"
    by (simp add: accepted_do_accept)
  have tr: "\<exists>es. trace (snd (do_accept (s\<lparr>accepted := accepted s + 1\<rparr>) k env)) =
              trace s @ Sys_Accept (ln_fd (ln s)) # es"
    using trace_do_accept [of "s\<lparr>accepted := accepted s + 1\<rparr>" k env] by simp
  show ?thesis using skip take acc tr by simp
qed

theorem loopAccept_round_robin_witness:
  "1 < length (loops idle_server) \<and> balance idle_server = RoundRobin \<and>
   unat (accepted idle_server) < 2 ^ 63 \<and>
   loopAccept idle_server 1 eagain_env = (Return None, idle_server) \<and>
   accepted (snd (loopAccept idle_server 0 eagain_env)) = accepted idle_server + 1"
proof -
  have h1: "1 < length (loops idle_server)" by (simp add: idle_server_def)
  have h2: "balance idle_server = RoundRobin" by (simp add: idle_server_def)
  have h3: "unat (accepted idle_server) < 2 ^ 63" by (simp add: idle_server_def)
  have h4: "int (unat (accepted idle_server) mod length (loops idle_server)) \<noteq>
            idx (loops idle_server ! 1)"
    by (simp add: idle_server_def new_loop_def)
  have h5: "int (unat (accepted idle_server) mod length (loops idle_server)) =
            idx (loops idle_server ! 0)"
    by (simp add: idle_server_def new_loop_def)
  show ?thesis
    using h1 h2 h3 h4 h5 loopAccept_round_robin [OF h1 h2 h3, of 1 eagain_env]
      loopAccept_round_robin [OF h1 h2 h3, of 0 eagain_env]
    by blast
qed

text \<open>Loop 0 of two loops has the turn and accept answers \<open>EAGAIN\<close>: no connection is
  accepted, and yet the counter moves from 0 to 1.\<close>

theorem loopAccept_round_robin_counterexample:
  "accept_res eagain_env = (- 1, 0, Some EAGAIN) \<and>
   fst (loopAccept idle_server 0 eagain_env) = Return None \<and>
   fdconns (loops (snd (loopAccept idle_server 0 eagain_env)) ! 0) = [] \<and>
   accepted idle_server = 0 \<and>
   accepted (snd (loopAccept idle_server 0 eagain_env)) = 1"
  by (simp add: loopAccept_def do_accept_def idle_server_def eagain_env_def new_loop_def
        Let_def emit_def signed_modulo_int_def)

section \<open>Closing, as seen from outside\<close>

lemma loopCloseConn_fst: "fst (loopCloseConn s k r err) = close_result s r err"
  by (simp add: loopCloseConn_def close_result_def Let_def emit_def upd_loop_def
        split: option.split)

lemma loopCloseConn_snd:
  "snd (loopCloseConn s k r err) =
     s\<lparr>loops := (loops s)[k := (loops s ! k)\<lparr>count := count (loops s ! k) - 1,
                    fdconns := AList.delete (fd (heap s r)) (fdconns (loops s ! k))\<rparr>],
       trace := trace s @ Sys_Close (fd (heap s r)) # closed_calls s r err\<rparr>"
  by (cases "k < length (loops s)")
     (simp_all add: loopCloseConn_def closed_calls_def Let_def emit_def upd_loop_def
        list_update_beyond split: option.split)

section \<open>The write transition\<close>

text \<open>
  C6: a write transition attempts one non-blocking write of the outbound buffer. On
  \<open>EAGAIN\<close> it returns nil and nothing changes but the record of the system call: buffer,
  action and interest are as before and no callback runs. On a successful write of \<open>n\<close>
  bytes the buffer becomes the unwritten remainder, and the interest is narrowed to
  read-only (\<open>ModRead\<close>) exactly when the buffer is drained and the action is None. On any
  other error the connection is closed, and that error is what \<open>Closed\<close> receives.
\<close>

theorem loopWrite_cases:
  assumes "k < length (loops s)"
  shows
   "(snd (write_res env) = Some EAGAIN \<longrightarrow>
       loopWrite s k r env =
         (Return None, emit (Sys_Write (fd (heap s r)) (out (heap s r))) s)) \<and>
    (\<forall>n. write_res env = (n, None) \<and> 0 \<le> n \<and> n \<le> int (length (out (heap s r))) \<longrightarrow>
       fst (loopWrite s k r env) = Return None \<and>
       heap (snd (loopWrite s k r env)) =
         (heap s)(r := (heap s r)\<lparr>out := drop (nat n) (out (heap s r))\<rparr>) \<and>
       trace (snd (loopWrite s k r env)) =
         trace s @ [Sys_Write (fd (heap s r)) (out (heap s r))] \<and>
       loops (snd (loopWrite s k r env)) =
         (loops s)[k := (loops s ! k)\<lparr>poll :=
            (if drop (nat n) (out (heap s r)) = [] \<and> action (heap s r) = None_Action
             then ModRead (fd (heap s r)) (poll (loops s ! k))
             else poll (loops s ! k))\<rparr>]) \<and>
    (\<forall>e. snd (write_res env) = Some e \<and> e \<noteq> EAGAIN \<longrightarrow>
       fst (loopWrite s k r env) = close_result s r (Some (SyscallError e)) \<and>
       trace (snd (loopWrite s k r env)) =
         trace s @ [Sys_Write (fd (heap s r)) (out (heap s r)), Sys_Close (fd (heap s r))]
           @ closed_calls s r (Some (SyscallError e)) \<and>
       map_of (fdconns (loops (snd (loopWrite s k r env)) ! k)) (fd (heap s r)) = None \<and>
       count (loops (snd (loopWrite s k r env)) ! k) = count (loops s ! k) - 1 \<and>
       heap (snd (loopWrite s k r env)) = heap s)"
proof (intro conjI allI impI)
  assume "snd (write_res env) = Some EAGAIN"
  then show "loopWrite s k r env =
         (Return None, emit (Sys_Write (fd (heap s r)) (out (heap s r))) s)"
    by (cases "write_res env") (simp add: loopWrite_def Let_def)
next
  fix n
  assume a: "write_res env = (n, None) \<and> 0 \<le> n \<and> n \<le> int (length (out (heap s r)))"
  show "fst (loopWrite s k r env) = Return None"
    using a by (simp add: loopWrite_def Let_def)
  show "heap (snd (loopWrite s k r env)) =
         (heap s)(r := (heap s r)\<lparr>out := drop (nat n) (out (heap s r))\<rparr>)"
    using a by (auto simp add: loopWrite_def Let_def narrow_if_idle_def upd_conn_def emit_def
          upd_poll_def upd_loop_def)
  show "trace (snd (loopWrite s k r env)) =
         trace s @ [Sys_Write (fd (heap s r)) (out (heap s r))]"
    using a by (auto simp add: loopWrite_def Let_def narrow_if_idle_def upd_conn_def emit_def
          upd_poll_def upd_loop_def)
  show "loops (snd (loopWrite s k r env)) =
         (loops s)[k := (loops s ! k)\<lparr>poll :=
            (if drop (nat n) (out (heap s r)) = [] \<and> action (heap s r) = None_Action
             then ModRead (fd (heap s r)) (poll (loops s ! k))
             else poll (loops s ! k))\<rparr>]"
    using a by (auto simp add: loopWrite_def Let_def narrow_if_idle_def upd_conn_def emit_def
          upd_poll_def upd_loop_def)
next
  fix e
  assume a: "snd (write_res env) = Some e \<and> e \<noteq> EAGAIN"
  then have w: "loopWrite s k r env =
      loopCloseConn (emit (Sys_Write (fd (heap s r)) (out (heap s r))) s) k r
        (Some (SyscallError e))"
    by (cases "write_res env") (simp add: loopWrite_def Let_def)
  show "fst (loopWrite s k r env) = close_result s r (Some (SyscallError e))"
    by (simp add: w loopCloseConn_fst close_result_def emit_def split: option.split)
  show "trace (snd (loopWrite s k r env)) =
         trace s @ [Sys_Write (fd (heap s r)) (out (heap s r)), Sys_Close (fd (heap s r))]
           @ closed_calls s r (Some (SyscallError e))"
    by (simp add: w loopCloseConn_snd closed_calls_def emit_def split: option.split)
  show "map_of (fdconns (loops (snd (loopWrite s k r env)) ! k)) (fd (heap s r)) = None"
    using assms by (simp add: w loopCloseConn_snd emit_def delete_conv')
  show "count (loops (snd (loopWrite s k r env)) ! k) = count (loops s ! k) - 1"
    using assms by (simp add: w loopCloseConn_snd emit_def)
  show "heap (snd (loopWrite s k r env)) = heap s"
    by (simp add: w loopCloseConn_snd emit_def)
qed

theorem loopWrite_cases_witness:
  "0 < length (loops one_conn_server) \<and>
   write_res (eagain_env\<lparr>write_res := (2, None)\<rparr>) = (2, None) \<and>
   out (heap (snd (loopWrite one_conn_server 0 0 (eagain_env\<lparr>write_res := (2, None)\<rparr>))) 0) = [3]"
proof -
  have h: "0 < length (loops one_conn_server)"
    by (simp add: one_conn_server_def)
  have w: "write_res (eagain_env\<lparr>write_res := (2, None)\<rparr>) = (2, None) \<and> (0::int) \<le> 2 \<and>
           2 \<le> int (length (out (heap one_conn_server 0)))"
    by (simp add: one_conn_server_def)
  from loopWrite_cases [OF h, of "eagain_env\<lparr>write_res := (2, None)\<rparr>" 0] w
  have "heap (snd (loopWrite one_conn_server 0 0 (eagain_env\<lparr>write_res := (2, None)\<rparr>))) =
        (heap one_conn_server)(0 := (heap one_conn_server 0)\<lparr>out :=
           drop (nat 2) (out (heap one_conn_server 0))\<rparr>)"
    by blast
  then show ?thesis using h w by (simp add: one_conn_server_def)
qed

section \<open>The read transition\<close>

lemmas state_defs = emit_def upd_loop_def upd_poll_def upd_conn_def narrow_if_idle_def
  widen_if_busy_def

lemma loopOpened_no_read:
  "\<exists>es. trace (snd (loopOpened s k r env)) = trace s @ es \<and> (\<forall>x. Sys_Read x \<notin> set es)"
  by (auto simp add: loopOpened_def Let_def state_defs split: option.split prod.split)

lemma loopWrite_no_read:
  "\<exists>es. trace (snd (loopWrite s k r env)) = trace s @ es \<and> (\<forall>x. Sys_Read x \<notin> set es)"
  by (auto simp add: loopWrite_def Let_def state_defs loopCloseConn_snd closed_calls_def
      split: option.split prod.split)

lemma sys_read_failed:
  "fst res = 0 \<or> snd res \<noteq> None \<Longrightarrow> sys_read buf res bs = buf"
  by (cases res) (auto simp add: sys_read_def)

lemma upd_loop_same_packet:
  "upd_loop k (\<lambda>l. l) s = s"
  by (simp add: upd_loop_def)

lemma loopRead_failed:
  assumes "fst (read_res env) = 0 \<or> snd (read_res env) \<noteq> None"
  shows "loopRead s k r env =
     (if snd (read_res env) = Some EAGAIN
      then (Return None, emit (Sys_Read (fd (heap s r))) s)
      else loopCloseConn (emit (Sys_Read (fd (heap s r))) s) k r
             (map_option SyscallError (snd (read_res env))))"
  using assms sys_read_failed [OF assms]
  by (cases "read_res env") (auto simp add: loopRead_def Let_def upd_loop_same_packet)

lemma loopRead_data:
  assumes "read_res env = (n, None)" and "0 < n" and "n \<le> int (length (packet (loops s ! k)))"
    and "n \<le> int (length (read_bytes env))" and "k < length (loops s)"
    and "Data (events s) = Some cb"
    and "cb (heap s r) (take (nat n) (read_bytes env)) = (bs, a)"
  shows "fst (loopRead s k r env) = Return None"
    and "trace (snd (loopRead s k r env)) =
           trace s @ [Sys_Read (fd (heap s r)),
                      Call_Data r (take (nat n) (read_bytes env)) (reuse (heap s r))]"
    and "heap (snd (loopRead s k r env)) =
           (heap s)(r := (heap s r)\<lparr>action := a,
              out := (if bs = [] then out (heap s r) else bs)\<rparr>)"
    and "poll (loops (snd (loopRead s k r env)) ! k) =
           (if (if bs = [] then out (heap s r) else bs) \<noteq> [] \<or> a \<noteq> None_Action
            then ModReadWrite (fd (heap s r)) (poll (loops s ! k))
            else poll (loops s ! k))"
  using assms
  by (auto simp add: loopRead_def Let_def state_defs sys_read_def)

text \<open>
  C5: a connection whose outbound buffer is not empty never takes the read transition
  (its event runs Opened or a write, and no \<open>read\<close> system call is made). A connection
  that is opened, has an empty outbound buffer and no pending action takes it, and then:
  on \<open>EAGAIN\<close> nothing changes but the record of the system call and no callback runs; on
  a zero-byte read or any other error the connection is closed and \<open>Closed\<close> receives that
  error (nil for a zero-byte read); otherwise the \<open>n\<close> bytes read are passed to \<open>Data\<close>, as
  a copy unless \<open>ReuseInputBuffer\<close> was set (the flag of \<open>Call_Data\<close> is \<open>c.reuse\<close>: true
  when the slice is the loop's packet buffer itself), the returned action is recorded,
  the returned bytes become the outbound buffer, and the interest is widened to
  read+write (\<open>ModReadWrite\<close>) exactly when that buffer is not empty or the action is not
  None.
\<close>

theorem read_transition:
  assumes "k < length (loops s)" and "map_of (fdconns (loops s ! k)) f = Some r"
  shows
   "(out (heap s r) \<noteq> [] \<longrightarrow>
       OnFdEvent s k f env =
         (if opened (heap s r) then loopWrite s k r env else loopOpened s k r env) \<and>
       (\<exists>es. trace (snd (OnFdEvent s k f env)) = trace s @ es \<and>
             (\<forall>x. Sys_Read x \<notin> set es))) \<and>
    (opened (heap s r) \<and> out (heap s r) = [] \<and> action (heap s r) = None_Action \<longrightarrow>
       OnFdEvent s k f env = loopRead s k r env) \<and>
    (snd (read_res env) = Some EAGAIN \<longrightarrow>
       loopRead s k r env = (Return None, emit (Sys_Read (fd (heap s r))) s)) \<and>
    ((fst (read_res env) = 0 \<or> snd (read_res env) \<noteq> None) \<and>
     snd (read_res env) \<noteq> Some EAGAIN \<longrightarrow>
       fst (loopRead s k r env) =
         close_result s r (map_option SyscallError (snd (read_res env))) \<and>
       trace (snd (loopRead s k r env)) =
         trace s @ [Sys_Read (fd (heap s r)), Sys_Close (fd (heap s r))]
           @ closed_calls s r (map_option SyscallError (snd (read_res env))) \<and>
       map_of (fdconns (loops (snd (loopRead s k r env)) ! k)) (fd (heap s r)) = None) \<and>
    (\<forall>n cb bs a.
       read_res env = (n, None) \<and> 0 < n \<and> n \<le> int (length (packet (loops s ! k))) \<and>
       n \<le> int (length (read_bytes env)) \<and> Data (events s) = Some cb \<and>
       cb (heap s r) (take (nat n) (read_bytes env)) = (bs, a) \<and> out (heap s r) = [] \<longrightarrow>
       fst (loopRead s k r env) = Return None \<and>
       trace (snd (loopRead s k r env)) =
         trace s @ [Sys_Read (fd (heap s r)),
                    Call_Data r (take (nat n) (read_bytes env)) (reuse (heap s r))] \<and>
       heap (snd (loopRead s k r env)) = (heap s)(r := (heap s r)\<lparr>action := a, out := bs\<rparr>) \<and>
       poll (loops (snd (loopRead s k r env)) ! k) =
         (if bs \<noteq> [] \<or> a \<noteq> None_Action
          then ModReadWrite (fd (heap s r)) (poll (loops s ! k))
          else poll (loops s ! k)))"
proof (intro conjI allI impI)
  assume ne: "out (heap s r) \<noteq> []"
  show d: "OnFdEvent s k f env =
         (if opened (heap s r) then loopWrite s k r env else loopOpened s k r env)"
    using assms(2) ne by (simp add: OnFdEvent_def Let_def)
  show "\<exists>es. trace (snd (OnFdEvent s k f env)) = trace s @ es \<and> (\<forall>x. Sys_Read x \<notin> set es)"
    using loopOpened_no_read [of s k r env] loopWrite_no_read [of s k r env]
    by (simp add: d)
next
  assume "opened (heap s r) \<and> out (heap s r) = [] \<and> action (heap s r) = None_Action"
  then show "OnFdEvent s k f env = loopRead s k r env"
    using assms(2) by (simp add: OnFdEvent_def Let_def)
next
  assume "snd (read_res env) = Some EAGAIN"
  then show "loopRead s k r env = (Return None, emit (Sys_Read (fd (heap s r))) s)"
    by (simp add: loopRead_failed)
next
  assume a: "(fst (read_res env) = 0 \<or> snd (read_res env) \<noteq> None) \<and>
     snd (read_res env) \<noteq> Some EAGAIN"
  then have w: "loopRead s k r env =
      loopCloseConn (emit (Sys_Read (fd (heap s r))) s) k r
        (map_option SyscallError (snd (read_res env)))"
    by (simp add: loopRead_failed)
  show "fst (loopRead s k r env) =
         close_result s r (map_option SyscallError (snd (read_res env)))"
    by (simp add: w loopCloseConn_fst close_result_def emit_def split: option.split)
  show "trace (snd (loopRead s k r env)) =
         trace s @ [Sys_Read (fd (heap s r)), Sys_Close (fd (heap s r))]
           @ closed_calls s r (map_option SyscallError (snd (read_res env)))"
    by (simp add: w loopCloseConn_snd closed_calls_def emit_def split: option.split)
  show "map_of (fdconns (loops (snd (loopRead s k r env)) ! k)) (fd (heap s r)) = None"
    using assms(1) by (simp add: w loopCloseConn_snd emit_def delete_conv')
next
  fix n cb bs a
  assume a: "read_res env = (n, None) \<and> 0 < n \<and> n \<le> int (length (packet (loops s ! k))) \<and>
       n \<le> int (length (read_bytes env)) \<and> Data (events s) = Some cb \<and>
       cb (heap s r) (take (nat n) (read_bytes env)) = (bs, a) \<and> out (heap s r) = []"
  note d = loopRead_data [of env n s k cb r bs a]
  show "fst (loopRead s k r env) = Return None"
    using a assms(1) by (intro d(1)) simp_all
  show "trace (snd (loopRead s k r env)) =
         trace s @ [Sys_Read (fd (heap s r)),
                    Call_Data r (take (nat n) (read_bytes env)) (reuse (heap s r))]"
    using a assms(1) by (intro d(2)) simp_all
  have "heap (snd (loopRead s k r env)) =
           (heap s)(r := (heap s r)\<lparr>action := a,
              out := (if bs = [] then out (heap s r) else bs)\<rparr>)"
    using a assms(1) by (intro d(3)) simp_all
  then show "heap (snd (loopRead s k r env)) = (heap s)(r := (heap s r)\<lparr>action := a, out := bs\<rparr>)"
    using a by simp
  have "poll (loops (snd (loopRead s k r env)) ! k) =
           (if (if bs = [] then out (heap s r) else bs) \<noteq> [] \<or> a \<noteq> None_Action
            then ModReadWrite (fd (heap s r)) (poll (loops s ! k))
            else poll (loops s ! k))"
    using a assms(1) by (intro d(4)) simp_all
  then show "poll (loops (snd (loopRead s k r env)) ! k) =
         (if bs \<noteq> [] \<or> a \<noteq> None_Action
          then ModReadWrite (fd (heap s r)) (poll (loops s ! k))
          else poll (loops s ! k))"
    using a by simp
qed

theorem read_transition_witness:
  "0 < length (loops echo_server) \<and> map_of (fdconns (loops echo_server ! 0)) 7 = Some 0 \<and>
   OnFdEvent echo_server 0 7 read_env = loopRead echo_server 0 0 read_env \<and>
   trace (snd (loopRead echo_server 0 0 read_env)) = [Sys_Read 7, Call_Data 0 [5, 6] False] \<and>
   out (heap (snd (loopRead echo_server 0 0 read_env)) 0) = [5, 6]"
proof -
  have h1: "0 < length (loops echo_server)"
    by (simp add: echo_server_def one_conn_server_def)
  have h2: "map_of (fdconns (loops echo_server ! 0)) 7 = Some 0"
    by (simp add: echo_server_def one_conn_server_def)
  have g: "opened (heap echo_server 0) \<and> out (heap echo_server 0) = [] \<and>
           action (heap echo_server 0) = None_Action"
    by (simp add: echo_server_def zero_conn_def)
  have d: "read_res read_env = (2, None) \<and> (0::int) < 2 \<and>
       2 \<le> int (length (packet (loops echo_server ! 0))) \<and>
       2 \<le> int (length (read_bytes read_env)) \<and>
       Data (events echo_server) = Some (\<lambda>c inp. (inp, None_Action)) \<and>
       (\<lambda>c inp. (inp, None_Action)) (heap echo_server 0) (take (nat 2) (read_bytes read_env)) =
         ([5, 6], None_Action) \<and>
       out (heap echo_server 0) = []"
    by (simp add: echo_server_def one_conn_server_def read_env_def eagain_env_def
          new_loop_def zero_conn_def)
  note t = read_transition [OF h1 h2, of read_env]
  from t g have e: "OnFdEvent echo_server 0 7 read_env = loopRead echo_server 0 0 read_env"
    by blast
  from t d have
    "trace (snd (loopRead echo_server 0 0 read_env)) =
       trace echo_server @ [Sys_Read (fd (heap echo_server 0)),
          Call_Data 0 (take (nat 2) (read_bytes read_env)) (reuse (heap echo_server 0))] \<and>
     heap (snd (loopRead echo_server 0 0 read_env)) =
       (heap echo_server)(0 := (heap echo_server 0)\<lparr>action := None_Action, out := [5, 6]\<rparr>)"
    by blast
  then show ?thesis using h1 h2 e
    by (simp add: echo_server_def one_conn_server_def idle_server_def read_env_def
          eagain_env_def zero_conn_def)
qed

section \<open>Writing through the channel\<close>




section \<open>A keep-alive that cannot be set\<close>



section \<open>The connection counter\<close>







lemma conns_view_upd_loop:
  assumes "\<And>l. count (g l) = count l \<and> fdconns (g l) = fdconns l"
  shows "conns_view (upd_loop k g s) = conns_view s"
proof (cases "k < length (loops s)")
  case True
  then show ?thesis
    using assms by (simp add: conns_view_def upd_loop_def map_update list_update_same_conv)
next
  case False
  then show ?thesis by (simp add: conns_view_def upd_loop_def list_update_beyond)
qed

lemma conns_view_simps [simp]:
  "conns_view (emit e s) = conns_view s"
  "conns_view (upd_conn r f s) = conns_view s"
  "conns_view (upd_poll k h s) = conns_view s"
  "conns_view (upd_loop k (\<lambda>l. l\<lparr>wch := w l\<rparr>) s) = conns_view s"
  "conns_view (upd_loop k (\<lambda>l. l\<lparr>packet := p l\<rparr>) s) = conns_view s"
  "conns_view (narrow_if_idle k r s) = conns_view s"
  "conns_view (widen_if_busy k r s) = conns_view s"
  "conns_view (s\<lparr>accepted := x\<rparr>) = conns_view s"
proof -
  show "conns_view (emit e s) = conns_view s" by (simp add: conns_view_def emit_def)
  show "conns_view (upd_conn r f s) = conns_view s" by (simp add: conns_view_def upd_conn_def)
  show p: "\<And>k h s. conns_view (upd_poll k h s) = conns_view s"
    unfolding upd_poll_def by (rule conns_view_upd_loop) simp
  show "conns_view (upd_loop k (\<lambda>l. l\<lparr>wch := w l\<rparr>) s) = conns_view s"
    by (rule conns_view_upd_loop) simp
  show "conns_view (upd_loop k (\<lambda>l. l\<lparr>packet := p l\<rparr>) s) = conns_view s"
    by (rule conns_view_upd_loop) simp
  show "conns_view (narrow_if_idle k r s) = conns_view s"
    by (simp add: narrow_if_idle_def Let_def p)
  show "conns_view (widen_if_busy k r s) = conns_view s"
    by (simp add: widen_if_busy_def Let_def p)
  show "conns_view (s\<lparr>accepted := x\<rparr>) = conns_view s" by (simp add: conns_view_def)
qed





















section \<open>Shutdown\<close>











end
